theory Spec2Isabelle
  imports Main
begin

section \<open>Data model of \<^verbatim>\<open>main.go\<close>\<close>

text \<open>
  The Go struct \<^verbatim>\<open>Product\<close>. Go's \<^verbatim>\<open>int\<close> fields are only ever compared (with
  \<^verbatim>\<open>< 1\<close>, \<^verbatim>\<open>< 0\<close>, \<^verbatim>\<open>!=\<close>) and never added or multiplied, so no operation of the
  program can overflow and the fields are modelled by \<open>int\<close>. A Go \<^verbatim>\<open>string\<close> is a
  sequence of bytes and \<^verbatim>\<open>len\<close> counts bytes, as \<open>length\<close> does on \<open>string\<close>.
\<close>

record Product =
  ProductID :: int
  SKU :: string
  Manufacturer :: string
  CategoryID :: int
  Weight :: int
  SomeOtherID :: int

text \<open>The Go struct \<^verbatim>\<open>ErrorResponse\<close>.\<close>

record ErrorResponse =
  Error :: string
  Message :: string
  Details :: string

text \<open>
  What a handler hands to gin: \<^verbatim>\<open>c.JSON(code, obj)\<close> with the object that is
  serialised (a \<^verbatim>\<open>Product\<close>, an \<^verbatim>\<open>ErrorResponse\<close>, or the \<^verbatim>\<open>gin.H\<close> of the health
  check), or \<^verbatim>\<open>c.Status(code)\<close> with no body.
\<close>

datatype Body =
    ProductBody Product
  | ErrorBody ErrorResponse
  | HBody "(string \<times> string) list"

datatype Response =
    JSON nat Body
  | Status nat

definition StatusOK :: nat where "StatusOK = 200"
definition StatusNoContent :: nat where "StatusNoContent = 204"
definition StatusBadRequest :: nat where "StatusBadRequest = 400"
definition StatusNotFound :: nat where "StatusNotFound = 404"

text \<open>
  The part of \<^verbatim>\<open>*gin.Context\<close> the handlers read: the path parameters
  (\<^verbatim>\<open>c.Param(name)\<close>) and the outcome of \<^verbatim>\<open>c.ShouldBindJSON(&p)\<close> on the request
  body, which is either the text of the decode error (\<^verbatim>\<open>err.Error()\<close>) or the
  decoded \<^verbatim>\<open>Product\<close>. JSON decoding itself belongs to gin and is taken as given.
\<close>

record Context =
  Param :: "string \<Rightarrow> string"
  ShouldBindJSON :: "string + Product"

text \<open>The global \<^verbatim>\<open>products = make(map[int]Product)\<close>: a map, empty at start.\<close>

type_synonym Products = "int \<rightharpoonup> Product"

definition products_init :: Products where
  "products_init = Map.empty"

section \<open>Library functions used by the handlers\<close>

text \<open>
  \<^verbatim>\<open>strconv.Atoi\<close> of the Go standard library, by its contract on a 64-bit target:
  an optional sign, then one or more decimal digits and nothing else; a value
  outside the range of \<^verbatim>\<open>int\<close> is an error. \<open>None\<close> stands for \<^verbatim>\<open>err != nil\<close>.
\<close>

definition intSize :: nat where "intSize = 64"

definition isDigit :: "char \<Rightarrow> bool" where
  "isDigit ch = (48 \<le> (of_char ch :: int) \<and> (of_char ch :: int) \<le> 57)"

fun parseDigits :: "string \<Rightarrow> int \<Rightarrow> int option" where
  "parseDigits [] n = Some n"
| "parseDigits (ch # s) n =
     (if isDigit ch then parseDigits s (n * 10 + (of_char ch - 48)) else None)"

definition Atoi :: "string \<Rightarrow> int option" where
  "Atoi s =
     (let neg = (s \<noteq> [] \<and> hd s = CHR ''-'');
          ds = (if s \<noteq> [] \<and> (hd s = CHR ''-'' \<or> hd s = CHR ''+'') then tl s else s)
      in if ds = [] then None
         else case parseDigits ds 0 of
                None \<Rightarrow> None
              | Some n \<Rightarrow>
                  (let v = (if neg then - n else n)
                   in if v < - (2 ^ (intSize - 1)) \<or> 2 ^ (intSize - 1) - 1 < v
                      then None else Some v))"

text \<open>\<^verbatim>\<open>strconv.Itoa\<close>: the decimal text of an integer.\<close>

function utoa :: "nat \<Rightarrow> string" where
  "utoa n = (if n < 10 then [''0123456789'' ! n]
             else utoa (n div 10) @ [''0123456789'' ! (n mod 10)])"
  by pat_completeness auto
termination
  by (relation "measure id") auto

declare utoa.simps [simp del]

definition Itoa :: "int \<Rightarrow> string" where
  "Itoa i = (if i < 0 then CHR ''-'' # utoa (nat (- i)) else utoa (nat i))"

section \<open>The validator\<close>

text \<open>\<^verbatim>\<open>validateProduct\<close>: the empty string means that the product is accepted.\<close>

definition validateProduct :: "Product \<Rightarrow> string" where
  "validateProduct p =
     (if ProductID p < 1 then ''product_id must be >= 1''
      else if length (SKU p) = 0 \<or> length (SKU p) > 100
        then ''sku must be between 1 and 100 characters''
      else if length (Manufacturer p) = 0 \<or> length (Manufacturer p) > 200
        then ''manufacturer must be between 1 and 200 characters''
      else if CategoryID p < 1 then ''category_id must be >= 1''
      else if Weight p < 0 then ''weight must be >= 0''
      else if SomeOtherID p < 1 then ''some_other_id must be >= 1''
      else '''')"

section \<open>The handlers\<close>

text \<open>
  Each handler takes the request context and the current \<^verbatim>\<open>products\<close> map and
  returns the response together with the map it leaves behind. The lock calls
  around the map access have no effect on a single sequential call and are
  left out.
\<close>

definition getProduct :: "Context \<Rightarrow> Products \<Rightarrow> Response \<times> Products" where
  "getProduct c products =
     (let bad = JSON StatusBadRequest (ErrorBody
                  \<lparr>Error = ''INVALID_INPUT'',
                   Message = ''Invalid product ID'',
                   Details = ''Product ID must be a positive integer''\<rparr>)
      in case Atoi (Param c ''productId'') of
           None \<Rightarrow> (bad, products)
         | Some productID \<Rightarrow>
             if productID < 1 then (bad, products)
             else (case products productID of
                     None \<Rightarrow>
                       (JSON StatusNotFound (ErrorBody
                          \<lparr>Error = ''NOT_FOUND'',
                           Message = ''Product not found'',
                           Details = ''No product found with ID '' @ Itoa productID\<rparr>),
                        products)
                   | Some product \<Rightarrow>
                       (JSON StatusOK (ProductBody product), products)))"

definition addProductDetails :: "Context \<Rightarrow> Products \<Rightarrow> Response \<times> Products" where
  "addProductDetails c products =
     (let bad = JSON StatusBadRequest (ErrorBody
                  \<lparr>Error = ''INVALID_INPUT'',
                   Message = ''Invalid product ID in path'',
                   Details = ''Product ID must be a positive integer''\<rparr>)
      in case Atoi (Param c ''productId'') of
           None \<Rightarrow> (bad, products)
         | Some productID \<Rightarrow>
             if productID < 1 then (bad, products)
             else (case ShouldBindJSON c of
                     Inl err \<Rightarrow>
                       (JSON StatusBadRequest (ErrorBody
                          \<lparr>Error = ''INVALID_INPUT'',
                           Message = ''Invalid request body'',
                           Details = err\<rparr>),
                        products)
                   | Inr p \<Rightarrow>
                       if validateProduct p \<noteq> '''' then
                         (JSON StatusBadRequest (ErrorBody
                            \<lparr>Error = ''INVALID_INPUT'',
                             Message = ''Validation failed'',
                             Details = validateProduct p\<rparr>),
                          products)
                       else if ProductID p \<noteq> productID then
                         (JSON StatusBadRequest (ErrorBody
                            \<lparr>Error = ''INVALID_INPUT'',
                             Message = ''Product ID mismatch'',
                             Details = ''Path product ID does not match body product_id''\<rparr>),
                          products)
                       else (Status StatusNoContent, products(productID \<mapsto> p))))"

text \<open>The routes registered in \<^verbatim>\<open>main\<close>, and a server run as a sequence of requests.\<close>

datatype Request =
    GET_product Context
  | POST_details Context
  | GET_health

fun handle :: "Request \<Rightarrow> Products \<Rightarrow> Response \<times> Products" where
  "handle (GET_product c) products = getProduct c products"
| "handle (POST_details c) products = addProductDetails c products"
| "handle GET_health products =
     (JSON StatusOK (HBody [(''status'', ''healthy'')]), products)"

fun run :: "Request list \<Rightarrow> Products \<Rightarrow> Products" where
  "run [] products = products"
| "run (r # rs) products = run rs (snd (handle r products))"

fun responses :: "Request list \<Rightarrow> Products \<Rightarrow> (Request \<times> Response) list" where
  "responses [] products = []"
| "responses (r # rs) products =
     (r, fst (handle r products)) # responses rs (snd (handle r products))"

section \<open>Vocabulary of the specification\<close>

text \<open>
  The two error kinds of the specification, read off a response: a bad request
  carrying the code \<^verbatim>\<open>INVALID_INPUT\<close>, and a not-found response carrying
  \<^verbatim>\<open>NOT_FOUND\<close>. Then the six field constraints of the data model, and the
  table of validation rules in its stated order with the rule that reports the
  first failure; these three follow the specification's wording and are
  compared with \<^verbatim>\<open>validateProduct\<close> below.
\<close>

definition isInvalidInput :: "Response \<Rightarrow> bool" where
  "isInvalidInput r =
     (case r of
        JSON code (ErrorBody e) \<Rightarrow> code = StatusBadRequest \<and> Error e = ''INVALID_INPUT''
      | _ \<Rightarrow> False)"

definition isNotFound :: "Response \<Rightarrow> bool" where
  "isNotFound r =
     (case r of
        JSON code (ErrorBody e) \<Rightarrow> code = StatusNotFound \<and> Error e = ''NOT_FOUND''
      | _ \<Rightarrow> False)"

definition fieldConstraints :: "Product \<Rightarrow> bool" where
  "fieldConstraints p =
     (1 \<le> ProductID p \<and>
      1 \<le> length (SKU p) \<and> length (SKU p) \<le> 100 \<and>
      1 \<le> length (Manufacturer p) \<and> length (Manufacturer p) \<le> 200 \<and>
      1 \<le> CategoryID p \<and>
      0 \<le> Weight p \<and>
      1 \<le> SomeOtherID p)"

definition fieldRules :: "((Product \<Rightarrow> bool) \<times> string) list" where
  "fieldRules =
     [(\<lambda>p. 1 \<le> ProductID p, ''product_id must be >= 1''),
      (\<lambda>p. 1 \<le> length (SKU p) \<and> length (SKU p) \<le> 100,
         ''sku must be between 1 and 100 characters''),
      (\<lambda>p. 1 \<le> length (Manufacturer p) \<and> length (Manufacturer p) \<le> 200,
         ''manufacturer must be between 1 and 200 characters''),
      (\<lambda>p. 1 \<le> CategoryID p, ''category_id must be >= 1''),
      (\<lambda>p. 0 \<le> Weight p, ''weight must be >= 0''),
      (\<lambda>p. 1 \<le> SomeOtherID p, ''some_other_id must be >= 1'')]"

fun firstFailure :: "((Product \<Rightarrow> bool) \<times> string) list \<Rightarrow> Product \<Rightarrow> string" where
  "firstFailure [] p = ''''"
| "firstFailure ((holds, msg) # rules) p =
     (if holds p then firstFailure rules p else msg)"

text \<open>
  The two invariants the registry is claimed to keep: every stored product meets
  the six field constraints, and every product is stored under its own
  \<^verbatim>\<open>product_id\<close>, which is positive.
\<close>

definition registryValid :: "Products \<Rightarrow> bool" where
  "registryValid products = (\<forall>k p. products k = Some p \<longrightarrow> fieldConstraints p)"

definition keysMatch :: "Products \<Rightarrow> bool" where
  "keysMatch products = (\<forall>k p. products k = Some p \<longrightarrow> k = ProductID p \<and> 1 \<le> k)"

text \<open>
  An entry of the log of a run is a successful write at \<open>n\<close> when it is a POST
  whose path parameter parses to \<open>n\<close> and whose response is 204.
\<close>

definition putSucceededAt :: "int \<Rightarrow> Request \<times> Response \<Rightarrow> bool" where
  "putSucceededAt n e =
     (case e of
        (POST_details c, resp) \<Rightarrow>
          Atoi (Param c ''productId'') = Some n \<and> resp = Status StatusNoContent
      | _ \<Rightarrow> False)"

text \<open>
  The path parameters gin hands to both product routes: \<^verbatim>\<open>:productId\<close> is the
  only one, and \<^verbatim>\<open>c.Param\<close> of any other name is the empty string.
\<close>

definition pathParams :: "string \<Rightarrow> string \<Rightarrow> string" where
  "pathParams v name = (if name = ''productId'' then v else '''')"

text \<open>
  Inputs for the concrete scenarios: a request with a given \<^verbatim>\<open>:productId\<close> and a
  given outcome of decoding the body, and the product of scenario 1 with a
  chosen identifier.
\<close>

definition request :: "string \<Rightarrow> string + Product \<Rightarrow> Context" where
  "request v body = \<lparr>Param = pathParams v, ShouldBindJSON = body\<rparr>"

definition acme :: "int \<Rightarrow> Product" where
  "acme n = \<lparr>ProductID = n, SKU = ''ABC'', Manufacturer = ''Acme'',
             CategoryID = 1, Weight = 500, SomeOtherID = 1\<rparr>"

section \<open>Basic facts about the validator and the handlers\<close>

lemma validateProduct_accepts_iff: "validateProduct p = '''' \<longleftrightarrow> fieldConstraints p"
  by (auto simp: validateProduct_def fieldConstraints_def Suc_le_eq)

lemma validateProduct_firstFailure: "validateProduct p = firstFailure fieldRules p"
  by (auto simp: validateProduct_def fieldRules_def Suc_le_eq)

lemma getProduct_keeps_products: "snd (getProduct c products) = products"
  by (simp add: getProduct_def Let_def split: option.splits)

lemma getProduct_bad_path:
  assumes "\<forall>n. Atoi (Param c ''productId'') = Some n \<longrightarrow> n < 1"
  shows "getProduct c products =
           (JSON StatusBadRequest (ErrorBody
              \<lparr>Error = ''INVALID_INPUT'', Message = ''Invalid product ID'',
               Details = ''Product ID must be a positive integer''\<rparr>), products)"
  using assms by (simp add: getProduct_def Let_def split: option.splits)

lemma addProductDetails_bad_path:
  assumes "\<forall>n. Atoi (Param c ''productId'') = Some n \<longrightarrow> n < 1"
  shows "addProductDetails c products =
           (JSON StatusBadRequest (ErrorBody
              \<lparr>Error = ''INVALID_INPUT'', Message = ''Invalid product ID in path'',
               Details = ''Product ID must be a positive integer''\<rparr>), products)"
  using assms by (simp add: addProductDetails_def Let_def split: option.splits)

lemma addProductDetails_bad_body:
  assumes "Atoi (Param c ''productId'') = Some n" and "1 \<le> n"
    and "ShouldBindJSON c = Inl err"
  shows "addProductDetails c products =
           (JSON StatusBadRequest (ErrorBody
              \<lparr>Error = ''INVALID_INPUT'', Message = ''Invalid request body'',
               Details = err\<rparr>), products)"
  using assms by (simp add: addProductDetails_def Let_def)

lemma addProductDetails_bad_field:
  assumes "Atoi (Param c ''productId'') = Some n" and "1 \<le> n"
    and "ShouldBindJSON c = Inr p" and "validateProduct p \<noteq> ''''"
  shows "addProductDetails c products =
           (JSON StatusBadRequest (ErrorBody
              \<lparr>Error = ''INVALID_INPUT'', Message = ''Validation failed'',
               Details = validateProduct p\<rparr>), products)"
  using assms by (simp add: addProductDetails_def Let_def)

lemma addProductDetails_mismatch:
  assumes "Atoi (Param c ''productId'') = Some n" and "1 \<le> n"
    and "ShouldBindJSON c = Inr p" and "validateProduct p = ''''"
    and "ProductID p \<noteq> n"
  shows "addProductDetails c products =
           (JSON StatusBadRequest (ErrorBody
              \<lparr>Error = ''INVALID_INPUT'', Message = ''Product ID mismatch'',
               Details = ''Path product ID does not match body product_id''\<rparr>), products)"
  using assms by (simp add: addProductDetails_def Let_def)

lemma addProductDetails_commit:
  assumes "Atoi (Param c ''productId'') = Some n"
    and "ShouldBindJSON c = Inr p" and "validateProduct p = ''''"
    and "ProductID p = n"
  shows "addProductDetails c products = (Status StatusNoContent, products(n \<mapsto> p))"
proof -
  from assms(3) have "1 \<le> ProductID p"
    by (simp add: validateProduct_accepts_iff fieldConstraints_def)
  with assms show ?thesis
    by (simp add: addProductDetails_def Let_def)
qed

lemma addProductDetails_success_iff:
  "fst (addProductDetails c products) = Status StatusNoContent \<longleftrightarrow>
     (\<exists>p. ShouldBindJSON c = Inr p \<and> validateProduct p = '''' \<and>
          Atoi (Param c ''productId'') = Some (ProductID p))"
proof
  assume ok: "fst (addProductDetails c products) = Status StatusNoContent"
  then obtain n p where n: "Atoi (Param c ''productId'') = Some n"
    and p: "ShouldBindJSON c = Inr p"
    by (auto simp: addProductDetails_def Let_def split: option.splits sum.splits if_splits)
  with ok have "validateProduct p = '''' \<and> ProductID p = n"
    by (auto simp: addProductDetails_def Let_def split: if_splits)
  with n p show "\<exists>p. ShouldBindJSON c = Inr p \<and> validateProduct p = '''' \<and>
          Atoi (Param c ''productId'') = Some (ProductID p)"
    by simp
next
  assume "\<exists>p. ShouldBindJSON c = Inr p \<and> validateProduct p = '''' \<and>
          Atoi (Param c ''productId'') = Some (ProductID p)"
  then obtain p where "ShouldBindJSON c = Inr p" "validateProduct p = ''''"
    "Atoi (Param c ''productId'') = Some (ProductID p)"
    by blast
  then show "fst (addProductDetails c products) = Status StatusNoContent"
    by (simp add: addProductDetails_commit)
qed

lemma addProductDetails_dichotomy:
  "fst (addProductDetails c products) = Status StatusNoContent \<or>
   isInvalidInput (fst (addProductDetails c products)) \<and>
   snd (addProductDetails c products) = products"
  by (simp add: addProductDetails_def isInvalidInput_def Let_def
      split: option.splits sum.splits)

lemma getProduct_hit:
  assumes "Atoi (Param c ''productId'') = Some n" and "1 \<le> n" and "products n = Some p"
  shows "getProduct c products = (JSON StatusOK (ProductBody p), products)"
  using assms by (simp add: getProduct_def Let_def)

lemma getProduct_miss:
  assumes "Atoi (Param c ''productId'') = Some n" and "1 \<le> n" and "products n = None"
  shows "getProduct c products =
           (JSON StatusNotFound (ErrorBody
              \<lparr>Error = ''NOT_FOUND'', Message = ''Product not found'',
               Details = ''No product found with ID '' @ Itoa n\<rparr>), products)"
  using assms by (simp add: getProduct_def Let_def)

lemma parseDigits_non_digit:
  "ch \<in> set ds \<Longrightarrow> \<not> isDigit ch \<Longrightarrow> parseDigits ds n = None"
  by (induction ds arbitrary: n) auto

lemma Atoi_non_numeric:
  assumes "ch \<in> set s" and "\<not> isDigit ch" and "ch \<noteq> CHR ''-''" and "ch \<noteq> CHR ''+''"
  shows "Atoi s = None"
proof -
  from assms(1) obtain x xs where s: "s = x # xs" by (cases s) auto
  let ?ds = "if s \<noteq> [] \<and> (hd s = CHR ''-'' \<or> hd s = CHR ''+'') then tl s else s"
  from assms s have "ch \<in> set ?ds" by auto
  then have "parseDigits ?ds 0 = None"
    using assms(2) by (rule parseDigits_non_digit)
  then show ?thesis by (simp add: Atoi_def Let_def)
qed

lemma Atoi_empty: "Atoi '''' = None"
  by (simp add: Atoi_def)

lemma handle_store_cases:
  "snd (handle r products) = products \<or>
   (\<exists>c p. r = POST_details c \<and> ShouldBindJSON c = Inr p \<and> validateProduct p = '''' \<and>
          Atoi (Param c ''productId'') = Some (ProductID p) \<and>
          fst (handle r products) = Status StatusNoContent \<and>
          snd (handle r products) = products(ProductID p \<mapsto> p))"
proof (cases r)
  case (GET_product c)
  then show ?thesis by (simp add: getProduct_keeps_products)
next
  case (POST_details c)
  show ?thesis
  proof (cases "fst (addProductDetails c products) = Status StatusNoContent")
    case True
    then obtain p where p: "ShouldBindJSON c = Inr p" "validateProduct p = ''''"
      "Atoi (Param c ''productId'') = Some (ProductID p)"
      by (auto simp: addProductDetails_success_iff)
    then have "addProductDetails c products =
        (Status StatusNoContent, products(ProductID p \<mapsto> p))"
      by (simp add: addProductDetails_commit)
    with p POST_details show ?thesis by simp
  next
    case False
    with addProductDetails_dichotomy [of c products] POST_details
    show ?thesis by simp
  qed
next
  case GET_health
  then show ?thesis by simp
qed

lemma handle_registryValid:
  "registryValid products \<Longrightarrow> registryValid (snd (handle r products))"
  using handle_store_cases [of r products]
  by (auto simp: registryValid_def validateProduct_accepts_iff split: if_splits)

lemma run_registryValid:
  "registryValid products \<Longrightarrow> registryValid (run rs products)"
  by (induction rs arbitrary: products) (simp_all add: handle_registryValid)

lemma handle_keysMatch:
  "keysMatch products \<Longrightarrow> keysMatch (snd (handle r products))"
  using handle_store_cases [of r products]
  by (auto simp: keysMatch_def validateProduct_accepts_iff fieldConstraints_def
      split: if_splits)

lemma run_keysMatch:
  "keysMatch products \<Longrightarrow> keysMatch (run rs products)"
  by (induction rs arbitrary: products) (simp_all add: handle_keysMatch)

lemma handle_other_key:
  "\<not> putSucceededAt n (r, fst (handle r products)) \<Longrightarrow>
   snd (handle r products) n = products n"
  using handle_store_cases [of r products]
  by (auto simp: putSucceededAt_def)

lemma run_untouched_key:
  "\<forall>e \<in> set (responses rs products). \<not> putSucceededAt n e \<Longrightarrow>
   run rs products n = products n"
  by (induction rs arbitrary: products) (simp_all add: handle_other_key)

lemma firstFailure_at:
  "i < length rules \<Longrightarrow> \<forall>j<i. fst (rules ! j) p \<Longrightarrow> \<not> fst (rules ! i) p \<Longrightarrow>
   firstFailure rules p = snd (rules ! i)"
proof (induction rules arbitrary: i)
  case Nil
  then show ?case by simp
next
  case (Cons rule rules)
  obtain holds msg where rule: "rule = (holds, msg)" by (cases rule)
  show ?case
  proof (cases i)
    case 0
    with Cons.prems rule show ?thesis by simp
  next
    case (Suc k)
    with Cons.prems have "fst ((rule # rules) ! 0) p" by blast
    with rule have h: "holds p" by simp
    from Suc Cons.prems have "\<forall>j<k. fst (rules ! j) p" by auto
    with Suc Cons.prems Cons.IH [of k] have "firstFailure rules p = snd (rules ! k)"
      by simp
    with h rule Suc show ?thesis by simp
  qed
qed

lemma registryValid_init: "registryValid products_init"
  by (simp add: registryValid_def products_init_def)

lemma keysMatch_init: "keysMatch products_init"
  by (simp add: keysMatch_def products_init_def)

subsection \<open>The example inputs\<close>

lemma Atoi_examples:
  "Atoi ''42'' = Some 42" "Atoi ''7'' = Some 7" "Atoi ''1'' = Some 1"
  "Atoi ''9999'' = Some 9999" "Atoi ''-5'' = Some (- 5)" "Atoi ''0'' = Some 0"
  "Atoi ''abc'' = None"
  by (simp_all add: Atoi_def isDigit_def intSize_def)

lemma request_simps:
  "Param (request v body) ''productId'' = v" "ShouldBindJSON (request v body) = body"
  by (simp_all add: request_def pathParams_def)

lemma validateProduct_acme: "1 \<le> n \<Longrightarrow> validateProduct (acme n) = ''''"
  by (simp add: validateProduct_def acme_def)

lemma ProductID_acme: "ProductID (acme n) = n"
  by (simp add: acme_def)

section \<open>Write-then-read consistency\<close>

text \<open>
  Claim C1. Let \<open>p\<close> be the decoded body of a POST whose path identifier is
  \<open>p\<close>'s own \<^verbatim>\<open>product_id\<close>, and let the POST succeed (204, which it does only
  for a valid \<open>p\<close>). Then a GET of that identifier on the map the POST leaves
  behind answers 200 with exactly \<open>p\<close>, and leaves the map as it is.
\<close>

theorem put_then_get_roundtrip:
  assumes "ShouldBindJSON c = Inr p"
    and "Atoi (Param c ''productId'') = Some (ProductID p)"
    and "fst (addProductDetails c products) = Status StatusNoContent"
    and "Atoi (Param c' ''productId'') = Some (ProductID p)"
  shows "getProduct c' (snd (addProductDetails c products)) =
           (JSON StatusOK (ProductBody p), snd (addProductDetails c products))"
proof -
  from assms(1,3) have valid: "validateProduct p = ''''"
    by (auto simp: addProductDetails_success_iff)
  then have pos: "1 \<le> ProductID p"
    by (simp add: validateProduct_accepts_iff fieldConstraints_def)
  from assms(1,2) valid
  have "addProductDetails c products =
          (Status StatusNoContent, products(ProductID p \<mapsto> p))"
    by (simp add: addProductDetails_commit)
  then have "snd (addProductDetails c products) (ProductID p) = Some p"
    by simp
  with assms(4) pos show ?thesis
    by (rule getProduct_hit)
qed

text \<open>Scenario 1 of the specification: POST at 42, then GET 42.\<close>

theorem put_then_get_roundtrip_witness:
  "fst (addProductDetails (request ''42'' (Inr (acme 42))) products_init)
     = Status StatusNoContent \<and>
   fst (getProduct (request ''42'' (Inl ''EOF''))
          (snd (addProductDetails (request ''42'' (Inr (acme 42))) products_init)))
     = JSON 200 (ProductBody
         \<lparr>ProductID = 42, SKU = ''ABC'', Manufacturer = ''Acme'',
          CategoryID = 1, Weight = 500, SomeOtherID = 1\<rparr>)"
proof -
  have ok: "fst (addProductDetails (request ''42'' (Inr (acme 42))) products_init)
              = Status StatusNoContent"
    by (simp add: addProductDetails_commit [where p = "acme 42"] request_simps
        Atoi_examples validateProduct_acme ProductID_acme)
  from put_then_get_roundtrip
         [of "request ''42'' (Inr (acme 42))" "acme 42" products_init
             "request ''42'' (Inl ''EOF'')", OF _ _ ok]
  show ?thesis
    using ok by (simp add: request_simps Atoi_examples ProductID_acme StatusOK_def acme_def)
qed

section \<open>The registry holds valid products only\<close>

text \<open>
  Claim C2. If every product in the map meets the six field constraints, then
  so does every product in the map after any one request (GET, POST or health
  check) and after any sequence of requests. The map is empty at start, so no
  run of the server ever puts a product that violates a constraint into it.
\<close>

theorem registry_holds_only_valid_products:
  "(registryValid products \<longrightarrow> registryValid (snd (handle r products))) \<and>
   (registryValid products \<longrightarrow> registryValid (run rs products)) \<and>
   registryValid (run rs products_init)"
  by (simp add: handle_registryValid run_registryValid registryValid_init)

text \<open>
  A run from a map that already holds product 1: a write at 42, a write whose
  body names another identifier, a write with an empty sku, and a read.
\<close>

theorem registry_holds_only_valid_products_witness:
  "registryValid [1 \<mapsto> acme 1] \<and>
   registryValid
     (snd (handle (POST_details (request ''42'' (Inr (acme 42)))) [1 \<mapsto> acme 1])) \<and>
   registryValid
     (run [POST_details (request ''42'' (Inr (acme 42))),
           POST_details (request ''7'' (Inr (acme 8))),
           POST_details (request ''1'' (Inr ((acme 1)\<lparr>SKU := ''''\<rparr>))),
           GET_product (request ''42'' (Inl ''EOF''))] [1 \<mapsto> acme 1]) \<and>
   run [POST_details (request ''42'' (Inr (acme 42))),
        POST_details (request ''7'' (Inr (acme 8))),
        POST_details (request ''1'' (Inr ((acme 1)\<lparr>SKU := ''''\<rparr>))),
        GET_product (request ''42'' (Inl ''EOF''))] [1 \<mapsto> acme 1]
     = [1 \<mapsto> acme 1, 42 \<mapsto> acme 42]"
proof -
  let ?rs = "[POST_details (request ''42'' (Inr (acme 42))),
        POST_details (request ''7'' (Inr (acme 8))),
        POST_details (request ''1'' (Inr ((acme 1)\<lparr>SKU := ''''\<rparr>))),
        GET_product (request ''42'' (Inl ''EOF''))]"
  have start: "registryValid [1 \<mapsto> acme 1]"
    by (simp add: registryValid_def fieldConstraints_def acme_def)
  have stored: "run ?rs [1 \<mapsto> acme 1] = [1 \<mapsto> acme 1, 42 \<mapsto> acme 42]"
    by (simp add: addProductDetails_def getProduct_def Let_def request_simps
        Atoi_examples validateProduct_def acme_def)
  from registry_holds_only_valid_products
         [of "[1 \<mapsto> acme 1]" "POST_details (request ''42'' (Inr (acme 42)))" ?rs]
       start
  have "registryValid
          (snd (handle (POST_details (request ''42'' (Inr (acme 42)))) [1 \<mapsto> acme 1]))"
    and "registryValid (run ?rs [1 \<mapsto> acme 1])"
    by blast+
  with start stored show ?thesis
    by blast
qed

section \<open>Order of the validation rules\<close>

text \<open>
  Claim C3, as amended. \<^verbatim>\<open>validateProduct\<close> is the first-failure evaluation of
  the rule table in the order product_id, sku, manufacturer, category_id,
  weight, some_other_id: whenever rule \<open>i\<close> fails and all rules before it hold,
  the message of rule \<open>i\<close> is returned and nothing else. A product whose
  \<^verbatim>\<open>product_id\<close> is at least 1 and which violates both the sku rule and the
  manufacturer rule gets the sku message only. A POST with a valid path
  identifier whose body fails a rule answers 400 with that one message as its
  details.
\<close>

theorem validation_reports_first_failure:
  "validateProduct p = firstFailure fieldRules p \<and>
   (\<forall>i < length fieldRules.
      (\<forall>j < i. fst (fieldRules ! j) p) \<and> \<not> fst (fieldRules ! i) p \<longrightarrow>
      validateProduct p = snd (fieldRules ! i)) \<and>
   (1 \<le> ProductID p \<and>
    \<not> (1 \<le> length (SKU p) \<and> length (SKU p) \<le> 100) \<and>
    \<not> (1 \<le> length (Manufacturer p) \<and> length (Manufacturer p) \<le> 200) \<longrightarrow>
    validateProduct p = ''sku must be between 1 and 100 characters'') \<and>
   (\<forall>n. Atoi (Param c ''productId'') = Some n \<and> 1 \<le> n \<and>
        ShouldBindJSON c = Inr p \<and> validateProduct p \<noteq> '''' \<longrightarrow>
        fst (addProductDetails c products) =
          JSON StatusBadRequest (ErrorBody
            \<lparr>Error = ''INVALID_INPUT'', Message = ''Validation failed'',
             Details = firstFailure fieldRules p\<rparr>))"
proof (intro conjI)
  show "validateProduct p = firstFailure fieldRules p"
    by (rule validateProduct_firstFailure)
  show "\<forall>i < length fieldRules.
      (\<forall>j < i. fst (fieldRules ! j) p) \<and> \<not> fst (fieldRules ! i) p \<longrightarrow>
      validateProduct p = snd (fieldRules ! i)"
    by (simp add: validateProduct_firstFailure firstFailure_at)
  show "1 \<le> ProductID p \<and>
    \<not> (1 \<le> length (SKU p) \<and> length (SKU p) \<le> 100) \<and>
    \<not> (1 \<le> length (Manufacturer p) \<and> length (Manufacturer p) \<le> 200) \<longrightarrow>
    validateProduct p = ''sku must be between 1 and 100 characters''"
    by (auto simp: validateProduct_def Suc_le_eq)
  show "\<forall>n. Atoi (Param c ''productId'') = Some n \<and> 1 \<le> n \<and>
        ShouldBindJSON c = Inr p \<and> validateProduct p \<noteq> '''' \<longrightarrow>
        fst (addProductDetails c products) =
          JSON StatusBadRequest (ErrorBody
            \<lparr>Error = ''INVALID_INPUT'', Message = ''Validation failed'',
             Details = firstFailure fieldRules p\<rparr>)"
    by (auto simp: addProductDetails_bad_field validateProduct_firstFailure [symmetric])
qed

text \<open>
  An empty sku together with an empty manufacturer, a negative weight together
  with a zero \<^verbatim>\<open>some_other_id\<close>, and scenario 5 with both sku and manufacturer
  empty.
\<close>

theorem validation_reports_first_failure_witness:
  "validateProduct ((acme 1)\<lparr>SKU := '''', Manufacturer := ''''\<rparr>)
     = ''sku must be between 1 and 100 characters'' \<and>
   validateProduct ((acme 1)\<lparr>Weight := - 1, SomeOtherID := 0\<rparr>)
     = ''weight must be >= 0'' \<and>
   fst (addProductDetails
          (request ''1'' (Inr ((acme 1)\<lparr>SKU := '''', Manufacturer := ''''\<rparr>)))
          products_init)
     = JSON 400 (ErrorBody
         \<lparr>Error = ''INVALID_INPUT'', Message = ''Validation failed'',
          Details = ''sku must be between 1 and 100 characters''\<rparr>)"
proof -
  let ?p = "(acme 1)\<lparr>SKU := '''', Manufacturer := ''''\<rparr>"
  let ?q = "(acme 1)\<lparr>Weight := - 1, SomeOtherID := 0\<rparr>"
  let ?c = "request ''1'' (Inr ?p)"
  note at_p = validation_reports_first_failure [of ?p ?c products_init]
  note at_q = validation_reports_first_failure [of ?q ?c products_init]
  have "1 \<le> ProductID ?p \<and>
    \<not> (1 \<le> length (SKU ?p) \<and> length (SKU ?p) \<le> 100) \<and>
    \<not> (1 \<le> length (Manufacturer ?p) \<and> length (Manufacturer ?p) \<le> 200)"
    by (simp add: acme_def)
  with at_p [THEN conjunct2, THEN conjunct2, THEN conjunct1]
  have sku: "validateProduct ?p = ''sku must be between 1 and 100 characters''"
    by (rule mp)
  have "(4::nat) < length fieldRules"
    and "(\<forall>j<4. fst (fieldRules ! j) ?q) \<and> \<not> fst (fieldRules ! 4) ?q"
    and msg: "snd (fieldRules ! 4) = ''weight must be >= 0''"
    by (simp_all add: fieldRules_def acme_def less_Suc_eq numeral_nat)
  with at_q [THEN conjunct2, THEN conjunct1]
  have "validateProduct ?q = snd (fieldRules ! 4)"
    by blast
  with msg have weight: "validateProduct ?q = ''weight must be >= 0''"
    by simp
  have "Atoi (Param ?c ''productId'') = Some 1 \<and> (1::int) \<le> 1 \<and>
        ShouldBindJSON ?c = Inr ?p \<and> validateProduct ?p \<noteq> ''''"
    using sku by (simp add: request_simps Atoi_examples)
  with at_p [THEN conjunct2, THEN conjunct2, THEN conjunct2]
  have "fst (addProductDetails ?c products_init)
     = JSON StatusBadRequest (ErrorBody
         \<lparr>Error = ''INVALID_INPUT'', Message = ''Validation failed'',
          Details = firstFailure fieldRules ?p\<rparr>)"
    by blast
  with at_p [THEN conjunct1] sku weight show ?thesis
    by (simp add: StatusBadRequest_def)
qed

text \<open>
  Without the condition on \<^verbatim>\<open>product_id\<close> the statement about sku and
  manufacturer fails: the body below violates the sku rule and the manufacturer
  rule, and what is reported is the \<^verbatim>\<open>product_id\<close> rule, which comes first.
\<close>

theorem sku_not_always_reported_counterexample:
  "\<not> (1 \<le> length (SKU \<lparr>ProductID = 0, SKU = '''', Manufacturer = '''',
                        CategoryID = 1, Weight = 0, SomeOtherID = 1\<rparr>) \<and>
       length (SKU \<lparr>ProductID = 0, SKU = '''', Manufacturer = '''',
                    CategoryID = 1, Weight = 0, SomeOtherID = 1\<rparr>) \<le> 100) \<and>
   \<not> (1 \<le> length (Manufacturer \<lparr>ProductID = 0, SKU = '''', Manufacturer = '''',
                        CategoryID = 1, Weight = 0, SomeOtherID = 1\<rparr>) \<and>
       length (Manufacturer \<lparr>ProductID = 0, SKU = '''', Manufacturer = '''',
                    CategoryID = 1, Weight = 0, SomeOtherID = 1\<rparr>) \<le> 200) \<and>
   validateProduct \<lparr>ProductID = 0, SKU = '''', Manufacturer = '''',
                    CategoryID = 1, Weight = 0, SomeOtherID = 1\<rparr>
     = ''product_id must be >= 1'' \<and>
   validateProduct \<lparr>ProductID = 0, SKU = '''', Manufacturer = '''',
                    CategoryID = 1, Weight = 0, SomeOtherID = 1\<rparr>
     \<noteq> ''sku must be between 1 and 100 characters'' \<and>
   fst (addProductDetails
          (request ''1'' (Inr \<lparr>ProductID = 0, SKU = '''', Manufacturer = '''',
                               CategoryID = 1, Weight = 0, SomeOtherID = 1\<rparr>))
          products_init)
     = JSON 400 (ErrorBody
         \<lparr>Error = ''INVALID_INPUT'', Message = ''Validation failed'',
          Details = ''product_id must be >= 1''\<rparr>)"
  by (simp add: validateProduct_def addProductDetails_def Let_def request_simps
      Atoi_examples StatusBadRequest_def)

section \<open>Path identifiers that are not positive integers\<close>

text \<open>
  Claim C4. When the \<^verbatim>\<open>:productId\<close> path parameter contains a character that is
  neither a digit nor a sign, or is rejected by \<^verbatim>\<open>strconv.Atoi\<close> for any other
  reason, or parses to a number below 1, then both handlers answer 400 with
  \<^verbatim>\<open>INVALID_INPUT\<close>. The response is the same whatever the map holds, and the
  map is returned as it was.
\<close>

theorem bad_path_id_rejected_untouched:
  assumes "(\<exists>ch \<in> set (Param c ''productId'').
              \<not> isDigit ch \<and> ch \<noteq> CHR ''-'' \<and> ch \<noteq> CHR ''+'') \<or>
           Atoi (Param c ''productId'') = None \<or>
           (\<exists>n. Atoi (Param c ''productId'') = Some n \<and> n < 1)"
  shows "getProduct c products =
           (JSON StatusBadRequest (ErrorBody
              \<lparr>Error = ''INVALID_INPUT'', Message = ''Invalid product ID'',
               Details = ''Product ID must be a positive integer''\<rparr>), products) \<and>
         addProductDetails c products =
           (JSON StatusBadRequest (ErrorBody
              \<lparr>Error = ''INVALID_INPUT'', Message = ''Invalid product ID in path'',
               Details = ''Product ID must be a positive integer''\<rparr>), products) \<and>
         isInvalidInput (fst (getProduct c products)) \<and>
         isInvalidInput (fst (addProductDetails c products))"
proof -
  from assms have bad: "\<forall>n. Atoi (Param c ''productId'') = Some n \<longrightarrow> n < 1"
    by (auto simp: Atoi_non_numeric)
  show ?thesis
    by (simp add: getProduct_bad_path [OF bad] addProductDetails_bad_path [OF bad]
        isInvalidInput_def)
qed

text \<open>Scenario 2 (\<^verbatim>\<open>-5\<close>), the identifier 0, and the non-numeric \<^verbatim>\<open>abc\<close>.\<close>

theorem bad_path_id_rejected_untouched_witness:
  "getProduct (request ''-5'' (Inl ''EOF'')) [42 \<mapsto> acme 42] =
     (JSON StatusBadRequest (ErrorBody
        \<lparr>Error = ''INVALID_INPUT'', Message = ''Invalid product ID'',
         Details = ''Product ID must be a positive integer''\<rparr>), [42 \<mapsto> acme 42]) \<and>
   addProductDetails (request ''0'' (Inr (acme 0))) [42 \<mapsto> acme 42] =
     (JSON StatusBadRequest (ErrorBody
        \<lparr>Error = ''INVALID_INPUT'', Message = ''Invalid product ID in path'',
         Details = ''Product ID must be a positive integer''\<rparr>), [42 \<mapsto> acme 42]) \<and>
   isInvalidInput (fst (getProduct (request ''abc'' (Inl ''EOF'')) [42 \<mapsto> acme 42])) \<and>
   snd (addProductDetails (request ''abc'' (Inr (acme 42))) [42 \<mapsto> acme 42])
     = [42 \<mapsto> acme 42]"
proof -
  have neg: "(\<exists>ch \<in> set (Param (request ''-5'' (Inl ''EOF'')) ''productId'').
              \<not> isDigit ch \<and> ch \<noteq> CHR ''-'' \<and> ch \<noteq> CHR ''+'') \<or>
      Atoi (Param (request ''-5'' (Inl ''EOF'')) ''productId'') = None \<or>
      (\<exists>n. Atoi (Param (request ''-5'' (Inl ''EOF'')) ''productId'') = Some n \<and> n < 1)"
    by (simp add: request_simps Atoi_examples)
  have zero: "(\<exists>ch \<in> set (Param (request ''0'' (Inr (acme 0))) ''productId'').
              \<not> isDigit ch \<and> ch \<noteq> CHR ''-'' \<and> ch \<noteq> CHR ''+'') \<or>
      Atoi (Param (request ''0'' (Inr (acme 0))) ''productId'') = None \<or>
      (\<exists>n. Atoi (Param (request ''0'' (Inr (acme 0))) ''productId'') = Some n \<and> n < 1)"
    by (simp add: request_simps Atoi_examples)
  have word: "(\<exists>ch \<in> set (Param (request ''abc'' body) ''productId'').
              \<not> isDigit ch \<and> ch \<noteq> CHR ''-'' \<and> ch \<noteq> CHR ''+'') \<or>
      Atoi (Param (request ''abc'' body) ''productId'') = None \<or>
      (\<exists>n. Atoi (Param (request ''abc'' body) ''productId'') = Some n \<and> n < 1)" for body
    by (simp add: request_simps isDigit_def)
  note at_neg = bad_path_id_rejected_untouched
    [OF neg, where products = "[42 \<mapsto> acme 42]"]
  note at_zero = bad_path_id_rejected_untouched
    [OF zero, where products = "[42 \<mapsto> acme 42]"]
  note at_word_get = bad_path_id_rejected_untouched
    [OF word [of "Inl ''EOF''"], where products = "[42 \<mapsto> acme 42]"]
  note at_word_post = bad_path_id_rejected_untouched
    [OF word [of "Inr (acme 42)"], where products = "[42 \<mapsto> acme 42]"]
  from at_word_post [THEN conjunct2, THEN conjunct1]
  have "snd (addProductDetails (request ''abc'' (Inr (acme 42))) [42 \<mapsto> acme 42])
     = [42 \<mapsto> acme 42]"
    by simp
  with at_neg [THEN conjunct1] at_zero [THEN conjunct2, THEN conjunct1]
    at_word_get [THEN conjunct2, THEN conjunct2, THEN conjunct1]
  show ?thesis
    by blast
qed

section \<open>Path and body identifier must agree\<close>

text \<open>
  Claim C5. Let the body of a POST decode to \<open>p\<close>. If \<open>p\<close> passes all field rules
  and the path identifier is not \<open>p\<close>'s \<^verbatim>\<open>product_id\<close>, the POST is rejected with
  \<^verbatim>\<open>INVALID_INPUT\<close> and the map is unchanged; when the path identifier itself is
  valid, the response is the mismatch error. If \<open>p\<close> fails a field rule, the
  response is never the mismatch error, and with a valid path identifier it is
  the validation error carrying that rule's message: the comparison of the two
  identifiers comes after the field rules.
\<close>

theorem mismatch_checked_after_fields:
  assumes "ShouldBindJSON c = Inr p"
  shows "(validateProduct p = '''' \<and> Atoi (Param c ''productId'') \<noteq> Some (ProductID p)
            \<longrightarrow> isInvalidInput (fst (addProductDetails c products)) \<and>
                snd (addProductDetails c products) = products) \<and>
         (\<forall>n. Atoi (Param c ''productId'') = Some n \<and> 1 \<le> n \<longrightarrow>
            (validateProduct p = '''' \<and> ProductID p \<noteq> n \<longrightarrow>
               addProductDetails c products =
                 (JSON StatusBadRequest (ErrorBody
                    \<lparr>Error = ''INVALID_INPUT'', Message = ''Product ID mismatch'',
                     Details = ''Path product ID does not match body product_id''\<rparr>),
                  products)) \<and>
            (validateProduct p \<noteq> '''' \<longrightarrow>
               addProductDetails c products =
                 (JSON StatusBadRequest (ErrorBody
                    \<lparr>Error = ''INVALID_INPUT'', Message = ''Validation failed'',
                     Details = validateProduct p\<rparr>),
                  products))) \<and>
         (validateProduct p \<noteq> '''' \<longrightarrow>
            fst (addProductDetails c products) \<noteq>
              JSON StatusBadRequest (ErrorBody
                \<lparr>Error = ''INVALID_INPUT'', Message = ''Product ID mismatch'',
                 Details = ''Path product ID does not match body product_id''\<rparr>))"
proof (intro conjI allI impI)
  assume a: "validateProduct p = '''' \<and>
    Atoi (Param c ''productId'') \<noteq> Some (ProductID p)"
  with assms have "fst (addProductDetails c products) \<noteq> Status StatusNoContent"
    by (auto simp: addProductDetails_success_iff)
  with addProductDetails_dichotomy [of c products]
  show "isInvalidInput (fst (addProductDetails c products))"
    and "snd (addProductDetails c products) = products"
    by simp_all
next
  fix n
  assume "Atoi (Param c ''productId'') = Some n \<and> 1 \<le> n"
    and "validateProduct p = '''' \<and> ProductID p \<noteq> n"
  with assms show "addProductDetails c products =
                 (JSON StatusBadRequest (ErrorBody
                    \<lparr>Error = ''INVALID_INPUT'', Message = ''Product ID mismatch'',
                     Details = ''Path product ID does not match body product_id''\<rparr>),
                  products)"
    by (simp add: addProductDetails_mismatch)
next
  fix n
  assume "Atoi (Param c ''productId'') = Some n \<and> 1 \<le> n"
    and "validateProduct p \<noteq> ''''"
  with assms show "addProductDetails c products =
                 (JSON StatusBadRequest (ErrorBody
                    \<lparr>Error = ''INVALID_INPUT'', Message = ''Validation failed'',
                     Details = validateProduct p\<rparr>),
                  products)"
    by (simp add: addProductDetails_bad_field)
next
  assume "validateProduct p \<noteq> ''''"
  with assms show "fst (addProductDetails c products) \<noteq>
              JSON StatusBadRequest (ErrorBody
                \<lparr>Error = ''INVALID_INPUT'', Message = ''Product ID mismatch'',
                 Details = ''Path product ID does not match body product_id''\<rparr>)"
    by (simp add: addProductDetails_def Let_def split: option.splits)
qed

text \<open>
  Scenario 4 (path 7, body 8), and the same request with a negative weight,
  which reports the weight and not the mismatch.
\<close>

theorem mismatch_checked_after_fields_witness:
  "addProductDetails (request ''7'' (Inr (acme 8))) products_init =
     (JSON 400 (ErrorBody
        \<lparr>Error = ''INVALID_INPUT'', Message = ''Product ID mismatch'',
         Details = ''Path product ID does not match body product_id''\<rparr>),
      products_init) \<and>
   addProductDetails (request ''7'' (Inr ((acme 8)\<lparr>Weight := - 1\<rparr>))) products_init =
     (JSON 400 (ErrorBody
        \<lparr>Error = ''INVALID_INPUT'', Message = ''Validation failed'',
         Details = ''weight must be >= 0''\<rparr>),
      products_init) \<and>
   isInvalidInput (fst (addProductDetails (request ''7'' (Inr (acme 8))) products_init))"
proof -
  let ?c = "request ''7'' (Inr (acme 8))"
  let ?d = "request ''7'' (Inr ((acme 8)\<lparr>Weight := - 1\<rparr>))"
  have c: "ShouldBindJSON ?c = Inr (acme 8)"
    and d: "ShouldBindJSON ?d = Inr ((acme 8)\<lparr>Weight := - 1\<rparr>)"
    by (simp_all add: request_simps)
  have path: "Atoi (Param ?c ''productId'') = Some 7 \<and> (1::int) \<le> 7"
    "Atoi (Param ?d ''productId'') = Some 7 \<and> (1::int) \<le> 7"
    by (simp_all add: request_simps Atoi_examples)
  have ok: "validateProduct (acme 8) = '''' \<and> ProductID (acme 8) \<noteq> 7"
    by (simp add: validateProduct_acme ProductID_acme)
  have ok': "validateProduct (acme 8) = '''' \<and>
    Atoi (Param ?c ''productId'') \<noteq> Some (ProductID (acme 8))"
    by (simp add: validateProduct_acme ProductID_acme request_simps Atoi_examples)
  have bad: "validateProduct ((acme 8)\<lparr>Weight := - 1\<rparr>) = ''weight must be >= 0''"
    by (simp add: validateProduct_def acme_def)
  note at_c = mismatch_checked_after_fields [OF c, of products_init]
  note at_d = mismatch_checked_after_fields [OF d, of products_init]
  from at_c [THEN conjunct2, THEN conjunct1] path(1) ok
  have 1: "addProductDetails ?c products_init =
     (JSON StatusBadRequest (ErrorBody
        \<lparr>Error = ''INVALID_INPUT'', Message = ''Product ID mismatch'',
         Details = ''Path product ID does not match body product_id''\<rparr>),
      products_init)"
    by blast
  from at_d [THEN conjunct2, THEN conjunct1] path(2) bad
  have 2: "addProductDetails ?d products_init =
     (JSON StatusBadRequest (ErrorBody
        \<lparr>Error = ''INVALID_INPUT'', Message = ''Validation failed'',
         Details = validateProduct ((acme 8)\<lparr>Weight := - 1\<rparr>)\<rparr>),
      products_init)"
    by (metis list.distinct(1))
  from at_c [THEN conjunct1] ok'
  have 3: "isInvalidInput (fst (addProductDetails ?c products_init))"
    by blast
  from 1 2 3 bad show ?thesis
    by (simp add: StatusBadRequest_def)
qed

section \<open>The last write wins\<close>

text \<open>
  Claim C6. When two POSTs at the same identifier \<open>n\<close>, with decoded bodies \<open>p1\<close>
  and then \<open>p2\<close>, both succeed, a following GET of \<open>n\<close> answers 200 with exactly
  \<open>p2\<close>, and the map is the original one with \<open>n\<close> bound to \<open>p2\<close>: nothing of
  \<open>p1\<close> is left in it.
\<close>

theorem last_write_wins:
  assumes "ShouldBindJSON c1 = Inr p1" and "ShouldBindJSON c2 = Inr p2"
    and "Atoi (Param c1 ''productId'') = Some n"
    and "Atoi (Param c2 ''productId'') = Some n"
    and "fst (addProductDetails c1 products) = Status StatusNoContent"
    and "fst (addProductDetails c2 (snd (addProductDetails c1 products)))
           = Status StatusNoContent"
    and "Atoi (Param c' ''productId'') = Some n"
  shows "getProduct c' (snd (addProductDetails c2 (snd (addProductDetails c1 products))))
           = (JSON StatusOK (ProductBody p2), products(n \<mapsto> p2)) \<and>
         snd (addProductDetails c2 (snd (addProductDetails c1 products)))
           = products(n \<mapsto> p2)"
proof -
  from assms(1,3,5) have v1: "validateProduct p1 = ''''" and k1: "ProductID p1 = n"
    by (auto simp: addProductDetails_success_iff)
  from assms(2,4,6) have v2: "validateProduct p2 = ''''" and k2: "ProductID p2 = n"
    by (auto simp: addProductDetails_success_iff)
  from assms(3) assms(1) v1 k1
  have s1: "addProductDetails c1 products = (Status StatusNoContent, products(n \<mapsto> p1))"
    by (rule addProductDetails_commit)
  from assms(4) assms(2) v2 k2
  have s2: "addProductDetails c2 (products(n \<mapsto> p1))
              = (Status StatusNoContent, (products(n \<mapsto> p1))(n \<mapsto> p2))"
    by (rule addProductDetails_commit)
  from s1 s2 have store: "snd (addProductDetails c2 (snd (addProductDetails c1 products)))
           = products(n \<mapsto> p2)"
    by simp
  from v2 k2 have "1 \<le> n"
    by (auto simp: validateProduct_accepts_iff fieldConstraints_def)
  with assms(7) have "getProduct c' (products(n \<mapsto> p2))
      = (JSON StatusOK (ProductBody p2), products(n \<mapsto> p2))"
    by (simp add: getProduct_hit)
  with store show ?thesis by simp
qed

text \<open>Product 42 written twice with different field values, then read.\<close>

theorem last_write_wins_witness:
  "fst (addProductDetails (request ''42'' (Inr (acme 42))) products_init)
     = Status StatusNoContent \<and>
   fst (addProductDetails
          (request ''42'' (Inr \<lparr>ProductID = 42, SKU = ''XYZ'', Manufacturer = ''Globex'',
                               CategoryID = 2, Weight = 0, SomeOtherID = 9\<rparr>))
          (snd (addProductDetails (request ''42'' (Inr (acme 42))) products_init)))
     = Status StatusNoContent \<and>
   fst (getProduct (request ''42'' (Inl ''EOF''))
     (snd (addProductDetails
          (request ''42'' (Inr \<lparr>ProductID = 42, SKU = ''XYZ'', Manufacturer = ''Globex'',
                               CategoryID = 2, Weight = 0, SomeOtherID = 9\<rparr>))
          (snd (addProductDetails (request ''42'' (Inr (acme 42))) products_init)))))
     = JSON StatusOK (ProductBody
         \<lparr>ProductID = 42, SKU = ''XYZ'', Manufacturer = ''Globex'',
          CategoryID = 2, Weight = 0, SomeOtherID = 9\<rparr>)"
proof -
  let ?p2 = "\<lparr>ProductID = 42, SKU = ''XYZ'', Manufacturer = ''Globex'',
              CategoryID = 2, Weight = 0, SomeOtherID = 9\<rparr>"
  let ?c1 = "request ''42'' (Inr (acme 42))"
  let ?c2 = "request ''42'' (Inr ?p2)"
  let ?g = "request ''42'' (Inl ''EOF'')"
  have b1: "ShouldBindJSON ?c1 = Inr (acme 42)" and b2: "ShouldBindJSON ?c2 = Inr ?p2"
    and n1: "Atoi (Param ?c1 ''productId'') = Some 42"
    and n2: "Atoi (Param ?c2 ''productId'') = Some 42"
    and n3: "Atoi (Param ?g ''productId'') = Some 42"
    by (simp_all add: request_simps Atoi_examples)
  have ok1: "fst (addProductDetails ?c1 products_init) = Status StatusNoContent"
    by (simp add: addProductDetails_commit [where p = "acme 42"] request_simps
        Atoi_examples validateProduct_acme ProductID_acme)
  have ok2: "fst (addProductDetails ?c2 (snd (addProductDetails ?c1 products_init)))
      = Status StatusNoContent"
    by (simp add: addProductDetails_commit [where p = ?p2] request_simps
        Atoi_examples validateProduct_def)
  from last_write_wins [OF b1 b2 n1 n2 ok1 ok2 n3, THEN conjunct1]
  have "fst (getProduct ?g (snd (addProductDetails ?c2
              (snd (addProductDetails ?c1 products_init)))))
          = JSON StatusOK (ProductBody ?p2)"
    by simp
  with ok1 ok2 show ?thesis
    by blast
qed

section \<open>Rejected writes change nothing\<close>

text \<open>
  Claim C7. A POST whose response is \<^verbatim>\<open>INVALID_INPUT\<close> returns the map it was
  given. Every POST that does not answer 204 answers \<^verbatim>\<open>INVALID_INPUT\<close>, whichever
  of the four checks (path, decoding, field rules, identifier mismatch) turned
  it down, so every failed write leaves the map untouched.
\<close>

theorem rejected_put_changes_nothing:
  "(isInvalidInput (fst (addProductDetails c products)) \<longrightarrow>
      snd (addProductDetails c products) = products) \<and>
   (fst (addProductDetails c products) \<noteq> Status StatusNoContent \<longrightarrow>
      isInvalidInput (fst (addProductDetails c products)))"
proof -
  have "\<not> isInvalidInput (Status StatusNoContent)"
    by (simp add: isInvalidInput_def)
  with addProductDetails_dichotomy [of c products] show ?thesis
    by auto
qed

text \<open>
  Scenario 4 on a map that holds product 42: the write at 7 with body
  identifier 8 is rejected, the map is the same, and a GET of 7 finds nothing.
\<close>

theorem rejected_put_changes_nothing_witness:
  "isInvalidInput (fst (addProductDetails (request ''7'' (Inr (acme 8))) [42 \<mapsto> acme 42])) \<and>
   snd (addProductDetails (request ''7'' (Inr (acme 8))) [42 \<mapsto> acme 42])
     = [42 \<mapsto> acme 42] \<and>
   fst (getProduct (request ''7'' (Inl ''EOF''))
          (snd (addProductDetails (request ''7'' (Inr (acme 8))) [42 \<mapsto> acme 42])))
     = JSON StatusNotFound (ErrorBody
         \<lparr>Error = ''NOT_FOUND'', Message = ''Product not found'',
          Details = ''No product found with ID 7''\<rparr>)"
proof -
  let ?c = "request ''7'' (Inr (acme 8))"
  have "fst (addProductDetails ?c [42 \<mapsto> acme 42]) \<noteq> Status StatusNoContent"
    by (simp add: addProductDetails_success_iff request_simps Atoi_examples ProductID_acme)
  with rejected_put_changes_nothing [of ?c "[42 \<mapsto> acme 42]"]
  have bad: "isInvalidInput (fst (addProductDetails ?c [42 \<mapsto> acme 42]))"
    and same: "snd (addProductDetails ?c [42 \<mapsto> acme 42]) = [42 \<mapsto> acme 42]"
    by blast+
  have "fst (getProduct (request ''7'' (Inl ''EOF'')) [42 \<mapsto> acme 42])
     = JSON StatusNotFound (ErrorBody
         \<lparr>Error = ''NOT_FOUND'', Message = ''Product not found'',
          Details = ''No product found with ID 7''\<rparr>)"
    by (simp add: getProduct_def Let_def request_simps Atoi_examples Itoa_def utoa.simps)
  with bad same show ?thesis
    by simp
qed

section \<open>Reading an identifier that was never written\<close>

text \<open>
  Claim C8. Take any run of requests from the empty map in which no POST at
  identifier \<open>n\<close> was answered with 204, where \<open>n\<close> is at least 1. A GET of \<open>n\<close>
  after that run answers 404 with \<^verbatim>\<open>NOT_FOUND\<close>, and returns the map unchanged.
\<close>

theorem get_unwritten_id_not_found:
  assumes "Atoi (Param c ''productId'') = Some n" and "1 \<le> n"
    and "\<forall>e \<in> set (responses rs products_init). \<not> putSucceededAt n e"
  shows "getProduct c (run rs products_init) =
           (JSON StatusNotFound (ErrorBody
              \<lparr>Error = ''NOT_FOUND'', Message = ''Product not found'',
               Details = ''No product found with ID '' @ Itoa n\<rparr>),
            run rs products_init) \<and>
         isNotFound (fst (getProduct c (run rs products_init)))"
proof -
  from assms(3) have "run rs products_init n = products_init n"
    by (rule run_untouched_key)
  then have "run rs products_init n = None"
    by (simp add: products_init_def)
  with assms(1,2) have "getProduct c (run rs products_init) =
           (JSON StatusNotFound (ErrorBody
              \<lparr>Error = ''NOT_FOUND'', Message = ''Product not found'',
               Details = ''No product found with ID '' @ Itoa n\<rparr>),
            run rs products_init)"
    by (rule getProduct_miss)
  then show ?thesis
    by (simp add: isNotFound_def)
qed

text \<open>
  Scenario 3: after a write at 42 and a rejected write at 9999, a GET of 9999
  is not found.
\<close>

theorem get_unwritten_id_not_found_witness:
  "fst (getProduct (request ''9999'' (Inl ''EOF''))
     (run [POST_details (request ''42'' (Inr (acme 42))),
           POST_details (request ''9999'' (Inr (acme 8))),
           GET_product (request ''9999'' (Inl ''EOF''))] products_init))
   = JSON StatusNotFound (ErrorBody
       \<lparr>Error = ''NOT_FOUND'', Message = ''Product not found'',
        Details = ''No product found with ID 9999''\<rparr>) \<and>
   snd (getProduct (request ''9999'' (Inl ''EOF''))
     (run [POST_details (request ''42'' (Inr (acme 42))),
           POST_details (request ''9999'' (Inr (acme 8))),
           GET_product (request ''9999'' (Inl ''EOF''))] products_init))
   = [42 \<mapsto> acme 42]"
proof -
  let ?rs = "[POST_details (request ''42'' (Inr (acme 42))),
           POST_details (request ''9999'' (Inr (acme 8))),
           GET_product (request ''9999'' (Inl ''EOF''))]"
  let ?g = "request ''9999'' (Inl ''EOF'')"
  have n: "Atoi (Param ?g ''productId'') = Some 9999" and pos: "(1::int) \<le> 9999"
    by (simp_all add: request_simps Atoi_examples)
  have never: "\<forall>e \<in> set (responses ?rs products_init). \<not> putSucceededAt 9999 e"
    by (simp add: putSucceededAt_def addProductDetails_def getProduct_def Let_def
        request_simps Atoi_examples validateProduct_def acme_def products_init_def)
  have store: "run ?rs products_init = [42 \<mapsto> acme 42]"
    by (simp add: addProductDetails_def getProduct_def Let_def
        request_simps Atoi_examples validateProduct_def acme_def products_init_def)
  have decimal: "Itoa 9999 = ''9999''"
    by (simp add: Itoa_def utoa.simps)
  from get_unwritten_id_not_found [OF n pos never, THEN conjunct1]
  have "getProduct ?g (run ?rs products_init) =
           (JSON StatusNotFound (ErrorBody
              \<lparr>Error = ''NOT_FOUND'', Message = ''Product not found'',
               Details = ''No product found with ID 9999''\<rparr>),
            [42 \<mapsto> acme 42])"
    by (simp only: store decimal append.simps)
  then show ?thesis
    by simp
qed

section \<open>Products are stored under their own identifier\<close>

text \<open>
  Claim C10. That every entry of the map is stored under the \<^verbatim>\<open>product_id\<close> of
  its product, and that this key is at least 1, is kept by every request and by
  every run of requests, and it holds of every run from the empty map. In a map
  with this property, a GET that answers 200 returns a product whose
  \<^verbatim>\<open>product_id\<close> is the identifier that was asked for.
\<close>

theorem stored_under_own_id:
  "(keysMatch products \<longrightarrow> keysMatch (snd (handle r products))) \<and>
   (keysMatch products \<longrightarrow> keysMatch (run rs products)) \<and>
   keysMatch (run rs products_init) \<and>
   (\<forall>p. keysMatch products \<and> fst (getProduct c products) = JSON StatusOK (ProductBody p)
        \<longrightarrow> Atoi (Param c ''productId'') = Some (ProductID p) \<and> 1 \<le> ProductID p)"
proof (intro conjI allI impI)
  fix p
  assume a: "keysMatch products \<and>
    fst (getProduct c products) = JSON StatusOK (ProductBody p)"
  then obtain n where n: "Atoi (Param c ''productId'') = Some n" and "products n = Some p"
    by (auto simp: getProduct_def Let_def split: option.splits if_splits)
  with a have "n = ProductID p \<and> 1 \<le> n"
    by (simp add: keysMatch_def)
  with n show "Atoi (Param c ''productId'') = Some (ProductID p)" and "1 \<le> ProductID p"
    by simp_all
qed (simp_all add: handle_keysMatch run_keysMatch keysMatch_init)

text \<open>A map holding product 1, a write at 42, a rejected write, and a GET of 1.\<close>

theorem stored_under_own_id_witness:
  "keysMatch [1 \<mapsto> acme 1] \<and>
   keysMatch (snd (handle (POST_details (request ''42'' (Inr (acme 42)))) [1 \<mapsto> acme 1])) \<and>
   keysMatch
     (run [POST_details (request ''42'' (Inr (acme 42))),
           POST_details (request ''7'' (Inr (acme 8)))] [1 \<mapsto> acme 1]) \<and>
   fst (getProduct (request ''1'' (Inl ''EOF'')) [1 \<mapsto> acme 1])
     = JSON StatusOK (ProductBody (acme 1)) \<and>
   Atoi (Param (request ''1'' (Inl ''EOF'')) ''productId'') = Some (ProductID (acme 1))"
proof -
  let ?r = "POST_details (request ''42'' (Inr (acme 42)))"
  let ?rs = "[POST_details (request ''42'' (Inr (acme 42))),
           POST_details (request ''7'' (Inr (acme 8)))]"
  let ?g = "request ''1'' (Inl ''EOF'')"
  note inst = stored_under_own_id [of "[1 \<mapsto> acme 1]" ?r ?rs ?g]
  have start: "keysMatch [1 \<mapsto> acme 1]"
    by (simp add: keysMatch_def acme_def)
  have hit: "fst (getProduct ?g [1 \<mapsto> acme 1]) = JSON StatusOK (ProductBody (acme 1))"
    by (simp add: getProduct_def Let_def request_simps Atoi_examples)
  from inst start hit show ?thesis
    by blast
qed

end
